theory Spec2Isabelle
  imports Main "HOL-Library.Sublist" "HOL-Library.AList"
begin

section \<open>Data model of app.py\<close>

text \<open>
  Strings are Python \<open>str\<close> values, modelled as lists of \<open>char\<close> with one \<open>char\<close>
  per code point below 256. A \<open>datetime\<close> and a \<open>timedelta\<close> are both integers counting
  microseconds, so \<open>datetime + timedelta\<close> is integer addition and the comparison is the
  integer order.
\<close>

type_synonym time = int

text \<open>The dictionary built at lines 45 to 52: six fixed keys, so a record.\<close>

record proxy =
  ip :: string
  port :: string
  protocol :: string
  source :: string
  last_checked :: "string option"
  working :: "bool option"

text \<open>The module-level dictionary \<open>proxy_cache\<close> of lines 18 to 22.\<close>

record proxy_cache =
  proxies :: "proxy list"
  last_updated :: "time option"
  expires_in :: time

definition CACHE_EXPIRATION_MINUTES :: int where
  "CACHE_EXPIRATION_MINUTES = 30"

definition minutes :: "int \<Rightarrow> time" where
  "minutes m = m * 60 * 1000000"

definition initial_cache :: proxy_cache where
  "initial_cache =
     \<lparr>proxies = [], last_updated = None, expires_in = minutes CACHE_EXPIRATION_MINUTES\<rparr>"

section \<open>The outside world\<close>

text \<open>
  A parsed listing page, as far as the code looks at it: the \<open>table\<close> elements in
  document order, each one the list of its \<open>tr\<close> elements, each of those the list of
  the \<open>.text\<close> of its \<open>td\<close> elements.
\<close>

type_synonym row = "string list"
type_synonym table = "row list"
type_synonym soup = "table list"

text \<open>What a network call can raise; every one is a subclass of \<open>Exception\<close>.\<close>

datatype failure = ConnectionFailed | TimedOut | ProtocolFailed | ParseFailed

text \<open>
  The answers of everything the program does not compute itself:
  \<^item> \<open>requests_get w url\<close>: lines 30 and 31, the listing page of \<open>url\<close> parsed, or
    the exception raised on the way;
  \<^item> \<open>probe_get w u\<close>: line 62, the status code of the request to \<open>TEST_URL\<close> sent
    through the proxy \<open>u\<close>, or the exception raised;
  \<^item> \<open>clock_check w u\<close>: the reading of \<open>datetime.now()\<close> at line 71 in the worker
    that probed \<open>u\<close>;
  \<^item> \<open>clock_update w\<close>: the reading of \<open>datetime.now()\<close> at line 124;
  \<^item> \<open>isoformat w\<close>: the library method \<open>datetime.isoformat\<close>.
\<close>

record world =
  requests_get :: "string \<Rightarrow> failure + soup"
  probe_get :: "string \<Rightarrow> failure + nat"
  clock_check :: "string \<Rightarrow> time"
  clock_update :: time
  isoformat :: "time \<Rightarrow> string"

text \<open>
  What the program does to the outside, in one trace: the requests it sends and the lines
  it prints. Tasks of one thread pool appear in the order they were submitted.
\<close>

datatype event =
    Print_updating
  | Http_get string
  | Print_fetch_error string failure
  | Http_probe string
  | Print_proxy_failed string string failure
  | Print_updated nat

definition cycles :: "event list \<Rightarrow> nat" where
  "cycles ev = length (filter (\<lambda>e. e = Print_updating) ev)"

section \<open>Source fetcher: \<open>fetch_proxies_from_source\<close>\<close>

text \<open>\<open>str.isspace\<close> on the code points below 256, and \<open>str.strip()\<close>.\<close>

definition is_space :: "char \<Rightarrow> bool" where
  "is_space c = (c \<in> set [CHR 0x09, CHR 0x0A, CHR 0x0B, CHR 0x0C, CHR 0x0D, CHR 0x1C,
                            CHR 0x1D, CHR 0x1E, CHR 0x1F, CHR 0x20, CHR 0x85, CHR 0xA0])"

definition strip :: "string \<Rightarrow> string" where
  "strip s = rev (dropWhile is_space (rev (dropWhile is_space s)))"

text \<open>The slice \<open>xs[i:j]\<close> for \<open>0 \<le> i \<le> j\<close>.\<close>

definition slice :: "nat \<Rightarrow> nat \<Rightarrow> 'a list \<Rightarrow> 'a list" where
  "slice i j xs = take (j - i) (drop i xs)"

text \<open>\<open>soup.find('table')\<close>: the first table, or \<open>None\<close>.\<close>

fun find_table :: "soup \<Rightarrow> table option" where
  "find_table [] = None"
| "find_table (t # ts) = Some t"

text \<open>Lines 42 to 52: the dictionary appended for a row with at least two cells.\<close>

definition candidate :: "string \<Rightarrow> row \<Rightarrow> proxy" where
  "candidate url cols =
     \<lparr>ip = strip (cols ! 0),
      port = strip (cols ! 1),
      protocol = (if sublist ''ssl'' url then ''https'' else ''http''),
      source = url,
      last_checked = None,
      working = None\<rparr>"

text \<open>The loop of lines 39 to 52 over \<open>rows\<close>, appending to \<open>proxies\<close>.\<close>

fun rows_loop :: "string \<Rightarrow> row list \<Rightarrow> proxy list \<Rightarrow> proxy list" where
  "rows_loop url [] acc = acc"
| "rows_loop url (cols # rows) acc =
     rows_loop url rows (if 2 \<le> length cols then acc @ [candidate url cols] else acc)"

definition fetch_proxies_from_source ::
  "world \<Rightarrow> string \<Rightarrow> string \<Rightarrow> proxy list \<times> event list" where
  "fetch_proxies_from_source w url parser_type =
     (case requests_get w url of
        Inl e \<Rightarrow> ([], [Http_get url, Print_fetch_error url e])
      | Inr sp \<Rightarrow>
          (if parser_type = ''table'' then
             (case find_table sp of
                None \<Rightarrow> []
              | Some tbl \<Rightarrow> rows_loop url (slice 1 20 tbl) [])
           else [],
           [Http_get url]))"

section \<open>Proxy verifier: \<open>test_proxy\<close>\<close>

definition proxy_url :: "proxy \<Rightarrow> string" where
  "proxy_url p = protocol p @ ''://'' @ ip p @ '':'' @ port p"

definition test_proxy :: "world \<Rightarrow> proxy \<Rightarrow> proxy option \<times> event list" where
  "test_proxy w p =
     (case probe_get w (proxy_url p) of
        Inl e \<Rightarrow> (None, [Http_probe (proxy_url p), Print_proxy_failed (ip p) (port p) e])
      | Inr status_code \<Rightarrow>
          (if status_code = 200 then
             Some (p\<lparr>last_checked := Some (isoformat w (clock_check w (proxy_url p))),
                     working := Some True\<rparr>)
           else None,
           [Http_probe (proxy_url p)]))"

section \<open>Harvest cycle: \<open>update_proxy_cache\<close>\<close>

definition sources :: "(string \<times> string) list" where
  "sources =
     [(''https://www.sslproxies.org/'', ''table''),
      (''https://free-proxy-list.net/'', ''table''),
      (''https://hidemy.name/es/proxy-list/'', ''table''),
      (''https://proxyscrape.com/free-proxy-list'', ''table'')]"

text \<open>Line 109: the key a candidate is remembered by.\<close>

definition proxy_identifier :: "proxy \<Rightarrow> string" where
  "proxy_identifier p = ip p @ '':'' @ port p"

text \<open>The loop of lines 106 to 112, with its two locals \<open>unique_proxies\<close> and \<open>seen\<close>.\<close>

fun dedupe_loop :: "proxy list \<Rightarrow> proxy list \<Rightarrow> string set \<Rightarrow> proxy list" where
  "dedupe_loop [] unique_proxies seen = unique_proxies"
| "dedupe_loop (p # ps) unique_proxies seen =
     (if proxy_identifier p \<notin> seen
      then dedupe_loop ps (unique_proxies @ [p]) (insert (proxy_identifier p) seen)
      else dedupe_loop ps unique_proxies seen)"

definition dedupe :: "proxy list \<Rightarrow> proxy list" where
  "dedupe all_proxies = dedupe_loop all_proxies [] {}"

text \<open>The loop of lines 118 to 120: the results that are not \<open>None\<close>, in order.\<close>

fun collect :: "proxy option list \<Rightarrow> proxy list" where
  "collect [] = []"
| "collect (None # rs) = collect rs"
| "collect (Some p # rs) = p # collect rs"

text \<open>
  Lines 81 to 120: everything \<open>update_proxy_cache\<close> does before it writes the cache,
  giving \<open>working_proxies\<close> and the trace up to there.
\<close>

definition harvest :: "world \<Rightarrow> proxy list \<times> event list" where
  "harvest w =
     (let fetched = map (\<lambda>(url, parser). fetch_proxies_from_source w url parser) sources;
          all_proxies = concat (map fst fetched);
          unique_proxies = dedupe all_proxies;
          results = map (test_proxy w) unique_proxies
      in (collect (map fst results),
          [Print_updating] @ concat (map snd fetched) @ concat (map snd results)))"

definition update_proxy_cache :: "world \<Rightarrow> proxy_cache \<Rightarrow> proxy_cache \<times> event list" where
  "update_proxy_cache w c =
     (let (working_proxies, ev) = harvest w
      in (c\<lparr>proxies := working_proxies, last_updated := Some (clock_update w)\<rparr>,
          ev @ [Print_updated (length working_proxies)]))"

section \<open>The read API\<close>

datatype error = TypeError | AttributeError | IndexError

text \<open>The bodies passed to \<open>jsonify\<close>, one constructor per handler, fields in source order.\<close>

datatype body =
    Proxies_body int string "proxy list"
  | Filtered_body int string "proxy list"
  | Error_body string
  | Stats_body int int int "(string \<times> int) list" string

type_synonym response = "body \<times> nat"

text \<open>
  The condition of lines 143-144 and 159-160. \<open>or\<close> does not evaluate its right side when
  the list is empty; adding a \<open>timedelta\<close> to \<open>None\<close> raises \<open>TypeError\<close>.
\<close>

definition cache_stale :: "time \<Rightarrow> proxy_cache \<Rightarrow> error + bool" where
  "cache_stale now c =
     (if proxies c = [] then Inr True
      else (case last_updated c of
              None \<Rightarrow> Inl TypeError
            | Some t \<Rightarrow> Inr (now > t + expires_in c)))"

text \<open>
  A handler returns its response or the exception it raised, the cache it leaves and the
  trace of what it did. \<open>now\<close> is the reading of \<open>datetime.now()\<close> in the condition.
\<close>

type_synonym outcome = "(error + response) \<times> proxy_cache \<times> event list"

definition get_proxies :: "world \<Rightarrow> time \<Rightarrow> proxy_cache \<Rightarrow> outcome" where
  "get_proxies w now c =
     (case cache_stale now c of
        Inl e \<Rightarrow> (Inl e, c, [])
      | Inr stale \<Rightarrow>
          (let (c', ev) = (if stale then update_proxy_cache w c else (c, []))
           in (case last_updated c' of
                 None \<Rightarrow> (Inl AttributeError, c', ev)
               | Some t \<Rightarrow>
                   (Inr (Proxies_body (int (length (proxies c'))) (isoformat w t) (proxies c'),
                         200),
                    c', ev))))"

definition invalid_protocol_message :: string where
  "invalid_protocol_message = ''Protocolo no v'' @ [CHR 0xE1] @ ''lido. Use http o https''"

definition get_proxies_by_protocol ::
  "world \<Rightarrow> time \<Rightarrow> string \<Rightarrow> proxy_cache \<Rightarrow> outcome" where
  "get_proxies_by_protocol w now proto c =
     (if proto \<notin> set [''http'', ''https''] then
        (Inr (Error_body invalid_protocol_message, 400), c, [])
      else
        (case cache_stale now c of
           Inl e \<Rightarrow> (Inl e, c, [])
         | Inr stale \<Rightarrow>
             (let (c', ev) = (if stale then update_proxy_cache w c else (c, []));
                  filtered = filter (\<lambda>p. protocol p = proto) (proxies c')
              in (Inr (Filtered_body (int (length filtered)) proto filtered, 200), c', ev))))"

text \<open>\<open>s.split(sep)\<close> for a one-character separator.\<close>

fun split_on :: "char \<Rightarrow> string \<Rightarrow> string list" where
  "split_on sep [] = [[]]"
| "split_on sep (c # cs) =
     (if c = sep then [] # split_on sep cs
      else (case split_on sep cs of
              [] \<Rightarrow> [[c]]
            | part # parts \<Rightarrow> (c # part) # parts))"

text \<open>
  The loop of lines 181 to 183 over the cache entries; the dictionary \<open>sources\<close> keeps
  its keys in insertion order. Indexing the split at 2 raises \<open>IndexError\<close> when the
  source has fewer than two slashes.
\<close>

fun count_sources :: "proxy list \<Rightarrow> (string \<times> int) list \<Rightarrow> error + (string \<times> int) list" where
  "count_sources [] counts = Inr counts"
| "count_sources (p # ps) counts =
     (let parts = split_on CHR ''/'' (source p)
      in if length parts \<le> 2 then Inl IndexError
         else count_sources ps
                (AList.update (parts ! 2)
                   ((case map_of counts (parts ! 2) of None \<Rightarrow> 0 | Some n \<Rightarrow> n) + 1)
                   counts))"

definition get_stats :: "world \<Rightarrow> proxy_cache \<Rightarrow> outcome" where
  "get_stats w c =
     (let (c', ev) = (if proxies c = [] then update_proxy_cache w c else (c, []));
          http_count = int (length (filter (\<lambda>p. protocol p = ''http'') (proxies c')));
          https_count = int (length (proxies c')) - http_count
      in (case count_sources (proxies c') [] of
            Inl e \<Rightarrow> (Inl e, c', ev)
          | Inr counts \<Rightarrow>
              (case last_updated c' of
                 None \<Rightarrow> (Inl AttributeError, c', ev)
               | Some t \<Rightarrow>
                   (Inr (Stats_body (int (length (proxies c'))) http_count https_count counts
                           (isoformat w t),
                         200),
                    c', ev))))"

text \<open>
  What \<open>jsonify\<close> writes for one entry: a \<open>str\<close> becomes a JSON string, \<open>None\<close> becomes
  \<open>null\<close>, \<open>True\<close> becomes \<open>true\<close>.
\<close>

datatype json = JNull | JBool bool | JInt int | JStr string

definition proxy_json :: "proxy \<Rightarrow> (string \<times> json) list" where
  "proxy_json p =
     [(''ip'', JStr (ip p)),
      (''port'', JStr (port p)),
      (''protocol'', JStr (protocol p)),
      (''source'', JStr (source p)),
      (''last_checked'', (case last_checked p of None \<Rightarrow> JNull | Some s \<Rightarrow> JStr s)),
      (''working'', (case working p of None \<Rightarrow> JNull | Some b \<Rightarrow> JBool b))]"

section \<open>The process: the cache over a sequence of requests\<close>

text \<open>
  The cache is a module-level variable: it starts as \<open>initial_cache\<close> and every call
  leaves it for the next. A request names the handler called and carries the answers of
  the outside world during that call; \<open>Req_startup\<close> is the call of
  \<open>update_proxy_cache\<close> at line 195. \<open>serve\<close> gives the cache a request leaves, also
  when the handler raised, and \<open>run\<close> the cache after a sequence of requests.
\<close>

datatype request =
    Req_startup world
  | Req_proxies world time
  | Req_by_protocol world time string
  | Req_stats world

fun world_of :: "request \<Rightarrow> world" where
  "world_of (Req_startup w) = w"
| "world_of (Req_proxies w now) = w"
| "world_of (Req_by_protocol w now proto) = w"
| "world_of (Req_stats w) = w"

fun serve :: "request \<Rightarrow> proxy_cache \<Rightarrow> proxy_cache" where
  "serve (Req_startup w) c = fst (update_proxy_cache w c)"
| "serve (Req_proxies w now) c = fst (snd (get_proxies w now c))"
| "serve (Req_by_protocol w now proto) c = fst (snd (get_proxies_by_protocol w now proto c))"
| "serve (Req_stats w) c = fst (snd (get_stats w c))"

fun run :: "request list \<Rightarrow> proxy_cache \<Rightarrow> proxy_cache" where
  "run [] c = c"
| "run (r # rs) c = run rs (serve r c)"

section \<open>Auxiliary definitions and example inputs\<close>

text \<open>
  The successful class of HTTP status codes, 200 to 299, for comparison with the test of
  line 70.
\<close>

definition http_2xx :: "nat \<Rightarrow> bool" where
  "http_2xx status_code = (200 \<le> status_code \<and> status_code < 300)"

text \<open>
  An entry whose port is the stripped second cell of a row that one of the worlds \<open>W\<close>
  gave for one of the configured sources, among the rows the fetcher reads.
\<close>

definition port_origin :: "world set \<Rightarrow> proxy \<Rightarrow> bool" where
  "port_origin W q =
     (\<exists>w url parser tbl rest cols. w \<in> W \<and> (url, parser) \<in> set sources
        \<and> requests_get w url = Inr (tbl # rest)
        \<and> cols \<in> set (take 19 (drop 1 tbl)) \<and> 2 \<le> length cols
        \<and> port q = strip (cols ! 1))"

text \<open>
  The loop of lines 106 to 112 without its accumulator: what is appended to
  \<open>unique_proxies\<close> from the rest of the input once \<open>seen\<close> is known.
\<close>

fun first_seen :: "string set \<Rightarrow> proxy list \<Rightarrow> proxy list" where
  "first_seen seen [] = []"
| "first_seen seen (p # ps) =
     (if proxy_identifier p \<in> seen then first_seen seen ps
      else p # first_seen (insert (proxy_identifier p) seen) ps)"

text \<open>
  An example world: one listing answers with a header row and one data row, the other
  three are unreachable, and every probe answers 200.
\<close>

definition example_iso :: "time \<Rightarrow> string" where
  "example_iso t =
     (if t = 0 then ''1970-01-01T00:00:00''
      else if t = 7 then ''1970-01-01T00:00:00.000007''
      else ''1970-01-01T00:00:00.000005'')"

definition example_world :: world where
  "example_world =
     \<lparr>requests_get = (\<lambda>url. if url = ''https://free-proxy-list.net/''
                            then Inr [[[''IP Address'', ''Port''], [''1.2.3.4'', ''8080'']]]
                            else Inl ConnectionFailed),
      probe_get = (\<lambda>u. Inr 200),
      clock_check = (\<lambda>u. 5),
      clock_update = 7,
      isoformat = example_iso\<rparr>"

definition example_entry :: proxy where
  "example_entry =
     \<lparr>ip = ''1.2.3.4'', port = ''8080'', protocol = ''http'',
      source = ''https://free-proxy-list.net/'',
      last_checked = Some ''1970-01-01T00:00:00.000005'', working = Some True\<rparr>"

text \<open>A cache holding that entry, last updated at time 0.\<close>

definition example_cache :: proxy_cache where
  "example_cache =
     \<lparr>proxies = [example_entry], last_updated = Some 0,
      expires_in = minutes CACHE_EXPIRATION_MINUTES\<rparr>"

text \<open>Two candidates with different addresses and ports and the same joined key.\<close>

definition colon_first :: proxy where
  "colon_first =
     \<lparr>ip = ''a:b'', port = ''c'', protocol = ''http'',
      source = ''https://free-proxy-list.net/'', last_checked = None, working = None\<rparr>"

definition colon_second :: proxy where
  "colon_second =
     \<lparr>ip = ''a'', port = ''b:c'', protocol = ''http'',
      source = ''https://free-proxy-list.net/'', last_checked = None, working = None\<rparr>"

text \<open>
  A listing whose first table has a header row and twenty-one rows after it, every one
  with two cells; and the example world answering with it.
\<close>

definition long_table :: table where
  "long_table =
     [[''IP Address'', ''Port''],
      [''10.0.0.1'', ''80''],
      [''10.0.0.2'', ''80''],
      [''10.0.0.3'', ''80''],
      [''10.0.0.4'', ''80''],
      [''10.0.0.5'', ''80''],
      [''10.0.0.6'', ''80''],
      [''10.0.0.7'', ''80''],
      [''10.0.0.8'', ''80''],
      [''10.0.0.9'', ''80''],
      [''10.0.0.10'', ''80''],
      [''10.0.0.11'', ''80''],
      [''10.0.0.12'', ''80''],
      [''10.0.0.13'', ''80''],
      [''10.0.0.14'', ''80''],
      [''10.0.0.15'', ''80''],
      [''10.0.0.16'', ''80''],
      [''10.0.0.17'', ''80''],
      [''10.0.0.18'', ''80''],
      [''10.0.0.19'', ''80''],
      [''10.0.0.20'', ''80''],
      [''10.0.0.21'', ''80'']]"

definition long_world :: world where
  "long_world = example_world\<lparr>requests_get := (\<lambda>url. Inr [long_table])\<rparr>"

text \<open>The example world with a port cell that is no port number.\<close>

definition wide_port_world :: world where
  "wide_port_world =
     example_world\<lparr>requests_get :=
       (\<lambda>url. Inr [[[''IP Address'', ''Port''], [''1.2.3.4'', ''99999'']]])\<rparr>"

text \<open>A listing with a one-cell row between the first row and a two-cell row.\<close>

definition ragged_world :: world where
  "ragged_world =
     example_world\<lparr>requests_get :=
       (\<lambda>url. Inr [[[''IP Address'', ''Port''], [''no proxies today''],
                     [''1.2.3.4'', ''8080'']]])\<rparr>"

text \<open>A cache with two http and three https entries, last updated at time 0.\<close>

definition http_entry :: "string \<Rightarrow> proxy" where
  "http_entry addr =
     \<lparr>ip = addr, port = ''8080'', protocol = ''http'',
      source = ''https://free-proxy-list.net/'',
      last_checked = Some ''1970-01-01T00:00:00.000005'', working = Some True\<rparr>"

definition https_entry :: "string \<Rightarrow> proxy" where
  "https_entry addr =
     \<lparr>ip = addr, port = ''443'', protocol = ''https'',
      source = ''https://www.sslproxies.org/'',
      last_checked = Some ''1970-01-01T00:00:00.000005'', working = Some True\<rparr>"

definition mixed_cache :: proxy_cache where
  "mixed_cache =
     \<lparr>proxies = [http_entry ''10.0.0.1'', https_entry ''10.0.0.2'', https_entry ''10.0.0.3'',
                 http_entry ''10.0.0.4'', https_entry ''10.0.0.5''],
      last_updated = Some 0,
      expires_in = minutes CACHE_EXPIRATION_MINUTES\<rparr>"

section \<open>Facts about the harvest cycle\<close>

lemma cycles_append: "cycles (xs @ ys) = cycles xs + cycles ys"
  by (simp add: cycles_def)

lemma cycles_fetch: "cycles (snd (fetch_proxies_from_source w url parser)) = 0"
  by (simp add: cycles_def fetch_proxies_from_source_def split: sum.splits)

lemma cycles_test_proxy: "cycles (snd (test_proxy w p)) = 0"
  by (simp add: cycles_def test_proxy_def split: sum.splits)

lemma cycles_concat:
  "(\<And>x. x \<in> set xs \<Longrightarrow> cycles (f x) = 0) \<Longrightarrow> cycles (concat (map f xs)) = 0"
  by (induction xs) (simp_all add: cycles_append, simp add: cycles_def)

lemma cycles_harvest: "cycles (snd (harvest w)) = 1"
proof -
  have a: "cycles (concat (map (\<lambda>s. snd (case s of (url, parser) \<Rightarrow>
             fetch_proxies_from_source w url parser)) sources)) = 0"
    by (rule cycles_concat) (auto simp: cycles_fetch)
  have b: "\<And>ps. cycles (concat (map (\<lambda>p. snd (test_proxy w p)) ps)) = 0"
    by (rule cycles_concat) (simp add: cycles_test_proxy)
  have c: "\<And>es. cycles (Print_updating # es) = Suc (cycles es)"
    by (simp add: cycles_def)
  show ?thesis
    by (simp add: harvest_def Let_def cycles_append a b c o_def)
qed

lemma update_proxy_cache_eq:
  "update_proxy_cache w c =
     (c\<lparr>proxies := fst (harvest w), last_updated := Some (clock_update w)\<rparr>,
      snd (harvest w) @ [Print_updated (length (fst (harvest w)))])"
  by (simp add: update_proxy_cache_def split_beta)

lemma cycles_update: "cycles (snd (update_proxy_cache w c)) = 1"
  using cycles_harvest [of w]
  by (simp add: update_proxy_cache_eq cycles_append) (simp add: cycles_def)

subsection \<open>The example world, evaluated\<close>

lemma fetch_example_down:
  "url \<noteq> ''https://free-proxy-list.net/'' \<Longrightarrow>
   fetch_proxies_from_source example_world url parser =
     ([], [Http_get url, Print_fetch_error url ConnectionFailed])"
  by (simp add: fetch_proxies_from_source_def example_world_def)

lemma fetch_example_up:
  "fetch_proxies_from_source example_world ''https://free-proxy-list.net/'' ''table'' =
     ([example_entry\<lparr>last_checked := None, working := None\<rparr>],
      [Http_get ''https://free-proxy-list.net/''])"
  by (simp add: fetch_proxies_from_source_def example_world_def slice_def candidate_def
      strip_def is_space_def sublist_code example_entry_def)

lemma harvest_example:
  "harvest example_world =
     ([example_entry],
      [Print_updating,
       Http_get ''https://www.sslproxies.org/'',
       Print_fetch_error ''https://www.sslproxies.org/'' ConnectionFailed,
       Http_get ''https://free-proxy-list.net/'',
       Http_get ''https://hidemy.name/es/proxy-list/'',
       Print_fetch_error ''https://hidemy.name/es/proxy-list/'' ConnectionFailed,
       Http_get ''https://proxyscrape.com/free-proxy-list'',
       Print_fetch_error ''https://proxyscrape.com/free-proxy-list'' ConnectionFailed,
       Http_probe ''http://1.2.3.4:8080''])"
  by (simp add: harvest_def sources_def fetch_example_down fetch_example_up dedupe_def
      proxy_identifier_def test_proxy_def proxy_url_def example_entry_def,
      simp add: example_world_def example_iso_def proxy_url_def)

section \<open>Read-through staleness (C1)\<close>

text \<open>
  C1. For a cache with a non-empty entry list and \<open>last_updated = T\<close>, \<open>get_proxies\<close> at a
  time at or before \<open>T + expires_in\<close> answers with the current entries, leaves the cache as
  it is and does nothing else: no harvest cycle runs. With an empty entry list, or at a
  time strictly after \<open>T + expires_in\<close>, it runs exactly one harvest cycle, stores the
  harvested entries and the time of the update in the cache, and answers with the new
  entries.
\<close>

theorem get_proxies_read_through:
  "(proxies c \<noteq> [] \<and> last_updated c = Some T \<and> now \<le> T + expires_in c \<longrightarrow>
      get_proxies w now c =
        (Inr (Proxies_body (int (length (proxies c))) (isoformat w T) (proxies c), 200), c, [])
      \<and> cycles (snd (snd (get_proxies w now c))) = 0)
   \<and> (proxies c = [] \<or> (last_updated c = Some T \<and> T + expires_in c < now) \<longrightarrow>
      get_proxies w now c =
        (Inr (Proxies_body (int (length (fst (harvest w)))) (isoformat w (clock_update w))
                (fst (harvest w)), 200),
         c\<lparr>proxies := fst (harvest w), last_updated := Some (clock_update w)\<rparr>,
         snd (harvest w) @ [Print_updated (length (fst (harvest w)))])
      \<and> cycles (snd (snd (get_proxies w now c))) = 1)"
proof (intro conjI impI)
  assume fresh: "proxies c \<noteq> [] \<and> last_updated c = Some T \<and> now \<le> T + expires_in c"
  then have "cache_stale now c = Inr False"
    by (simp add: cache_stale_def)
  with fresh show g: "get_proxies w now c =
        (Inr (Proxies_body (int (length (proxies c))) (isoformat w T) (proxies c), 200), c, [])"
    by (simp add: get_proxies_def)
  show "cycles (snd (snd (get_proxies w now c))) = 0"
    unfolding g by (simp add: cycles_def)
next
  assume stale: "proxies c = [] \<or> (last_updated c = Some T \<and> T + expires_in c < now)"
  then have "cache_stale now c = Inr True"
    by (auto simp: cache_stale_def)
  then show g: "get_proxies w now c =
        (Inr (Proxies_body (int (length (fst (harvest w)))) (isoformat w (clock_update w))
                (fst (harvest w)), 200),
         c\<lparr>proxies := fst (harvest w), last_updated := Some (clock_update w)\<rparr>,
         snd (harvest w) @ [Print_updated (length (fst (harvest w)))])"
    by (simp add: get_proxies_def update_proxy_cache_eq)
  show "cycles (snd (snd (get_proxies w now c))) = 1"
    unfolding g using cycles_update [of w c] by (simp add: update_proxy_cache_eq)
qed

theorem get_proxies_read_through_witness:
  "get_proxies example_world (minutes 29) example_cache =
     (Inr (Proxies_body 1 ''1970-01-01T00:00:00'' [example_entry], 200), example_cache, [])
   \<and> cycles (snd (snd (get_proxies example_world (minutes 29) example_cache))) = 0
   \<and> cycles (snd (snd (get_proxies example_world (minutes 31) example_cache))) = 1
   \<and> proxies (fst (snd (get_proxies example_world (minutes 31) example_cache))) = [example_entry]
   \<and> last_updated (fst (snd (get_proxies example_world (minutes 31) example_cache))) = Some 7
   \<and> cycles (snd (snd (get_proxies example_world 0 initial_cache))) = 1"
proof -
  have fresh: "proxies example_cache \<noteq> [] \<and> last_updated example_cache = Some 0
      \<and> minutes 29 \<le> 0 + expires_in example_cache"
    by (simp add: example_cache_def minutes_def CACHE_EXPIRATION_MINUTES_def)
  have stale: "proxies example_cache = [] \<or>
      (last_updated example_cache = Some 0 \<and> 0 + expires_in example_cache < minutes 31)"
    by (simp add: example_cache_def minutes_def CACHE_EXPIRATION_MINUTES_def)
  have empty: "proxies initial_cache = [] \<or>
      (last_updated initial_cache = Some 0 \<and> 0 + expires_in initial_cache < 0)"
    by (simp add: initial_cache_def)
  have iso: "isoformat example_world 0 = ''1970-01-01T00:00:00''"
    "clock_update example_world = 7"
    by (simp_all add: example_world_def example_iso_def)
  have len: "proxies example_cache = [example_entry]"
    by (simp add: example_cache_def)
  from get_proxies_read_through [of example_cache 0 "minutes 29" example_world] fresh
  have a: "get_proxies example_world (minutes 29) example_cache =
      (Inr (Proxies_body 1 ''1970-01-01T00:00:00'' [example_entry], 200), example_cache, [])"
    "cycles (snd (snd (get_proxies example_world (minutes 29) example_cache))) = 0"
    by (simp_all only: iso len, simp_all)
  from get_proxies_read_through [of example_cache 0 "minutes 31" example_world] stale
  have b: "get_proxies example_world (minutes 31) example_cache =
      (Inr (Proxies_body (int (length (fst (harvest example_world))))
              (isoformat example_world (clock_update example_world))
              (fst (harvest example_world)), 200),
       example_cache\<lparr>proxies := fst (harvest example_world),
                       last_updated := Some (clock_update example_world)\<rparr>,
       snd (harvest example_world) @ [Print_updated (length (fst (harvest example_world)))])"
    "cycles (snd (snd (get_proxies example_world (minutes 31) example_cache))) = 1"
    by blast+
  from get_proxies_read_through [of initial_cache 0 0 example_world] empty
  have c: "cycles (snd (snd (get_proxies example_world 0 initial_cache))) = 1"
    by blast
  have d: "proxies (fst (snd (get_proxies example_world (minutes 31) example_cache))) =
      [example_entry]"
    "last_updated (fst (snd (get_proxies example_world (minutes 31) example_cache))) = Some 7"
    unfolding b(1) by (simp_all add: harvest_example iso)
  from a b(2) c d show ?thesis
    by blast
qed

section \<open>Deduplication (C2, C10)\<close>

lemma dedupe_loop_first_seen:
  "dedupe_loop xs unique_proxies seen = unique_proxies @ first_seen seen xs"
  by (induction xs arbitrary: unique_proxies seen) auto

lemma dedupe_first_seen: "dedupe xs = first_seen {} xs"
  by (simp add: dedupe_def dedupe_loop_first_seen)

lemma first_seen_distinct:
  "distinct (map proxy_identifier (first_seen seen xs))
   \<and> proxy_identifier ` set (first_seen seen xs) \<inter> seen = {}"
  by (induction xs arbitrary: seen) auto

lemma first_seen_subseq: "subseq (first_seen seen xs) xs"
  by (induction xs arbitrary: seen) auto

lemma distinct_identifier_pairs:
  "distinct (map proxy_identifier xs) \<Longrightarrow> distinct (map (\<lambda>p. (ip p, port p)) xs)"
  by (induction xs) (auto simp: proxy_identifier_def)

lemma nth_filter_Suc:
  "map (\<lambda>i. (x # xs) ! i) (filter Q (map Suc js)) =
   map (\<lambda>i. xs ! i) (filter (\<lambda>i. Q (Suc i)) js)"
  by (induction js) auto

lemma first_seen_index:
  "first_seen seen xs =
     map (\<lambda>i. xs ! i)
       (filter (\<lambda>i. proxy_identifier (xs ! i) \<notin> seen \<union> proxy_identifier ` set (take i xs))
          [0..<length xs])"
proof (induction xs arbitrary: seen)
  case Nil
  then show ?case by simp
next
  case (Cons x xs)
  let ?Q = "\<lambda>i. proxy_identifier ((x # xs) ! i)
              \<notin> seen \<union> proxy_identifier ` set (take i (x # xs))"
  have upt: "[0..<length (x # xs)] = 0 # map Suc [0..<length xs]"
    by (simp add: upt_conv_Cons map_Suc_upt del: upt_Suc)
  have tail: "map (\<lambda>i. (x # xs) ! i) (filter ?Q (map Suc [0..<length xs])) =
      first_seen (insert (proxy_identifier x) seen) xs"
  proof -
    have "filter (\<lambda>i. ?Q (Suc i)) [0..<length xs] =
        filter (\<lambda>i. proxy_identifier (xs ! i)
                  \<notin> insert (proxy_identifier x) seen \<union> proxy_identifier ` set (take i xs))
          [0..<length xs]"
      by (rule filter_cong) auto
    then show ?thesis
      by (simp only: nth_filter_Suc Cons.IH [of "insert (proxy_identifier x) seen"])
  qed
  have same: "proxy_identifier x \<in> seen \<Longrightarrow>
      first_seen (insert (proxy_identifier x) seen) xs = first_seen seen xs"
    by (simp add: insert_absorb)
  have "map (\<lambda>i. (x # xs) ! i) (filter ?Q [0..<length (x # xs)]) =
      (if ?Q 0 then [x] else []) @ map (\<lambda>i. (x # xs) ! i) (filter ?Q (map Suc [0..<length xs]))"
    unfolding upt by simp
  also have "\<dots> = (if proxy_identifier x \<in> seen then [] else [x])
      @ first_seen (insert (proxy_identifier x) seen) xs"
    unfolding tail by simp
  also have "\<dots> = first_seen seen (x # xs)"
    using same by simp
  finally show ?case by simp
qed

text \<open>
  C2. For every sequence of candidates, the deduplication of lines 105 to 112 gives a list
  in which no two entries have the same (address, port) pair; the list consists of exactly
  those input positions whose key occurs at no earlier position, in input order, so every
  retained entry is the first occurrence and the order of first occurrence is kept; the
  retained entries are the input's own, unchanged. The result is a function of the input
  list alone: the loop reads the candidates and writes only its two locals.
\<close>

theorem dedupe_unique_first_occurrence:
  "distinct (map (\<lambda>p. (ip p, port p)) (dedupe candidates))
   \<and> dedupe candidates =
       map (\<lambda>i. candidates ! i)
         (filter (\<lambda>i. proxy_identifier (candidates ! i)
                    \<notin> proxy_identifier ` set (take i candidates))
            [0..<length candidates])
   \<and> subseq (dedupe candidates) candidates"
proof (intro conjI)
  show "distinct (map (\<lambda>p. (ip p, port p)) (dedupe candidates))"
    using first_seen_distinct [of "{}" candidates]
    by (simp add: dedupe_first_seen distinct_identifier_pairs)
  show "dedupe candidates =
       map (\<lambda>i. candidates ! i)
         (filter (\<lambda>i. proxy_identifier (candidates ! i)
                    \<notin> proxy_identifier ` set (take i candidates))
            [0..<length candidates])"
    using first_seen_index [of "{}" candidates] by (simp add: dedupe_first_seen)
  show "subseq (dedupe candidates) candidates"
    by (simp add: dedupe_first_seen first_seen_subseq)
qed

theorem dedupe_unique_first_occurrence_witness:
  "distinct (map (\<lambda>p. (ip p, port p)) (dedupe [example_entry, colon_first, example_entry]))
   \<and> subseq (dedupe [example_entry, colon_first, example_entry])
        [example_entry, colon_first, example_entry]
   \<and> dedupe [example_entry, colon_first, example_entry] = [example_entry, colon_first]"
proof -
  note t = dedupe_unique_first_occurrence [of "[example_entry, colon_first, example_entry]"]
  have e: "dedupe [example_entry, colon_first, example_entry] = [example_entry, colon_first]"
    by (simp add: dedupe_def proxy_identifier_def example_entry_def colon_first_def)
  from t have d: "distinct (map (\<lambda>p. (ip p, port p))
      (dedupe [example_entry, colon_first, example_entry]))"
    by (rule conjunct1)
  from t have s: "subseq (dedupe [example_entry, colon_first, example_entry])
      [example_entry, colon_first, example_entry]"
    by (elim conjE)
  from d s e show ?thesis
    by (intro conjI)
qed

text \<open>
  C10. The key of line 109 is the address and the port joined by a colon, so two
  candidates with different (address, port) pairs can have the same key: address
  \<open>a:b\<close> with port \<open>c\<close>, and address \<open>a\<close> with port \<open>b:c\<close>. Of the two, only the
  first is in the output.
\<close>

theorem dedupe_conflates_joined_keys:
  "(ip colon_first, port colon_first) \<noteq> (ip colon_second, port colon_second)
   \<and> proxy_identifier colon_first = proxy_identifier colon_second
   \<and> dedupe [colon_first, colon_second] = [colon_first]"
  by (simp add: dedupe_def proxy_identifier_def colon_first_def colon_second_def)

section \<open>Source fetcher (C5, C6)\<close>

lemma rows_loop_eq:
  "rows_loop url rows acc = acc @ map (candidate url) (filter (\<lambda>cols. 2 \<le> length cols) rows)"
  by (induction rows arbitrary: acc) auto

lemma fetch_table_eq:
  "requests_get w url = Inr (tbl # rest) \<Longrightarrow>
   fst (fetch_proxies_from_source w url ''table'') =
     map (candidate url) (filter (\<lambda>cols. 2 \<le> length cols) (take 19 (drop 1 tbl)))"
  by (simp add: fetch_proxies_from_source_def rows_loop_eq slice_def)

lemma fetch_long_world:
  "map ip (fst (fetch_proxies_from_source long_world ''https://free-proxy-list.net/'' ''table'')) =
     [''10.0.0.1'', ''10.0.0.2'', ''10.0.0.3'', ''10.0.0.4'', ''10.0.0.5'', ''10.0.0.6'', ''10.0.0.7'', ''10.0.0.8'', ''10.0.0.9'', ''10.0.0.10'', ''10.0.0.11'', ''10.0.0.12'', ''10.0.0.13'', ''10.0.0.14'', ''10.0.0.15'', ''10.0.0.16'', ''10.0.0.17'', ''10.0.0.18'', ''10.0.0.19'']"
proof -
  have r: "requests_get long_world ''https://free-proxy-list.net/'' = Inr (long_table # [])"
    by (simp add: long_world_def)
  show ?thesis
    unfolding fetch_table_eq [OF r]
    by (simp add: long_table_def candidate_def strip_def is_space_def)
qed

text \<open>
  C5 as stated fails on the row cap: in a table of a header row and twenty-one rows with
  two cells each, the last row \<open>("10.0.0.21", "80")\<close> is well formed and is not in the
  result, which holds the first nineteen rows after the header.
\<close>

theorem fetch_drops_rows_past_cap_counterexample:
  "length long_table = 22
   \<and> long_table ! 21 = [''10.0.0.21'', ''80'']
   \<and> map ip (fst (fetch_proxies_from_source long_world ''https://free-proxy-list.net/'' ''table'')) =
     [''10.0.0.1'', ''10.0.0.2'', ''10.0.0.3'', ''10.0.0.4'', ''10.0.0.5'', ''10.0.0.6'', ''10.0.0.7'', ''10.0.0.8'', ''10.0.0.9'', ''10.0.0.10'', ''10.0.0.11'', ''10.0.0.12'', ''10.0.0.13'', ''10.0.0.14'', ''10.0.0.15'', ''10.0.0.16'', ''10.0.0.17'', ''10.0.0.18'', ''10.0.0.19'']
   \<and> ''10.0.0.21''
       \<notin> set (map ip (fst (fetch_proxies_from_source long_world ''https://free-proxy-list.net/'' ''table'')))"
  by (simp add: fetch_long_world) (simp add: long_table_def)

text \<open>
  C5, amended. Whatever the retrieval gives, \<open>fetch_proxies_from_source\<close> returns a list
  and raises nothing: the empty list when the request or the parsing raised, and the
  empty list when the page has no table. When the page has a table, the rows read are the
  at most nineteen rows that follow the table's first row; among them every row with
  fewer than two cells is skipped and every row with at least two cells gives one
  candidate, in order, and the result holds nothing else.
\<close>

theorem fetch_failure_and_rows:
  "(requests_get w url = Inl e \<longrightarrow> fst (fetch_proxies_from_source w url parser_type) = [])
   \<and> (requests_get w url = Inr [] \<longrightarrow> fst (fetch_proxies_from_source w url parser_type) = [])
   \<and> (requests_get w url = Inr (tbl # rest) \<longrightarrow>
        fst (fetch_proxies_from_source w url ''table'') =
          map (candidate url) (filter (\<lambda>cols. 2 \<le> length cols) (take 19 (drop 1 tbl))))"
  by (simp add: fetch_proxies_from_source_def rows_loop_eq slice_def)

theorem fetch_failure_and_rows_witness:
  "fst (fetch_proxies_from_source example_world ''https://www.sslproxies.org/'' ''table'') = []
   \<and> fst (fetch_proxies_from_source (example_world\<lparr>requests_get := (\<lambda>url. Inr [])\<rparr>)
          ''https://free-proxy-list.net/'' ''table'') = []
   \<and> fst (fetch_proxies_from_source ragged_world ''https://free-proxy-list.net/'' ''table'') =
       [example_entry\<lparr>last_checked := None, working := None\<rparr>]"
proof -
  have a: "requests_get example_world ''https://www.sslproxies.org/'' = Inl ConnectionFailed"
    by (simp add: example_world_def)
  have b: "requests_get (example_world\<lparr>requests_get := (\<lambda>url. Inr [])\<rparr>) ''https://free-proxy-list.net/'' = Inr []"
    by simp
  have c: "requests_get ragged_world ''https://free-proxy-list.net/'' =
      Inr ([[''IP Address'', ''Port''], [''no proxies today''], [''1.2.3.4'', ''8080'']] # [])"
    by (simp add: ragged_world_def)
  from fetch_failure_and_rows [of example_world "''https://www.sslproxies.org/''"
      ConnectionFailed "''table''"] a
  have 1: "fst (fetch_proxies_from_source example_world ''https://www.sslproxies.org/''
      ''table'') = []"
    by blast
  from fetch_failure_and_rows [of "example_world\<lparr>requests_get := (\<lambda>url. Inr [])\<rparr>"
      "''https://free-proxy-list.net/''" _ "''table''"] b
  have 2: "fst (fetch_proxies_from_source (example_world\<lparr>requests_get := (\<lambda>url. Inr [])\<rparr>)
      ''https://free-proxy-list.net/'' ''table'') = []"
    by blast
  from fetch_failure_and_rows [of ragged_world "''https://free-proxy-list.net/''" _ _
      "[[''IP Address'', ''Port''], [''no proxies today''], [''1.2.3.4'', ''8080'']]" "[]"] c
  have "fst (fetch_proxies_from_source ragged_world ''https://free-proxy-list.net/'' ''table'') =
      map (candidate ''https://free-proxy-list.net/'')
        (filter (\<lambda>cols. 2 \<le> length cols)
           (take 19 (drop 1 [[''IP Address'', ''Port''], [''no proxies today''],
                             [''1.2.3.4'', ''8080'']])))"
    by blast
  then have 3: "fst (fetch_proxies_from_source ragged_world ''https://free-proxy-list.net/'' ''table'') =
      [example_entry\<lparr>last_checked := None, working := None\<rparr>]"
    by (simp add: candidate_def strip_def is_space_def sublist_code example_entry_def)
  from 1 2 3 show ?thesis
    by (intro conjI)
qed

text \<open>
  C6. When the page of a source parsed with the table rule has a table, the fetcher takes
  the first table, drops its first row, reads at most nineteen rows after it, and for
  each of those with at least two cells makes one candidate whose address and port are
  the stripped text of the first and second cell, whose protocol is \<open>https\<close> exactly when
  the source URL contains \<open>ssl\<close> and \<open>http\<close> otherwise, and whose source is the URL.
\<close>

theorem fetch_table_rule:
  "requests_get w url = Inr (tbl # rest) \<Longrightarrow>
   fst (fetch_proxies_from_source w url ''table'') =
     map (\<lambda>cols. \<lparr>ip = strip (cols ! 0), port = strip (cols ! 1),
                    protocol = (if (\<exists>a b. url = a @ ''ssl'' @ b) then ''https'' else ''http''),
                    source = url, last_checked = None, working = None\<rparr>)
       (filter (\<lambda>cols. 2 \<le> length cols) (take 19 (drop 1 tbl)))
   \<and> length (fst (fetch_proxies_from_source w url ''table'')) \<le> 19"
proof -
  assume r: "requests_get w url = Inr (tbl # rest)"
  have c: "candidate url = (\<lambda>cols. \<lparr>ip = strip (cols ! 0), port = strip (cols ! 1),
                    protocol = (if (\<exists>a b. url = a @ ''ssl'' @ b) then ''https'' else ''http''),
                    source = url, last_checked = None, working = None\<rparr>)"
    by (rule ext) (simp add: candidate_def sublist_def)
  have "length (filter (\<lambda>cols. 2 \<le> length cols) (take 19 (drop 1 tbl))) \<le> length (take 19 (drop 1 tbl))"
    by (rule length_filter_le)
  then have l: "length (filter (\<lambda>cols. 2 \<le> length cols) (take 19 (drop 1 tbl))) \<le> 19"
    by simp
  show ?thesis
    using l by (simp add: fetch_table_eq [OF r] c)
qed

theorem fetch_table_rule_witness:
  "fst (fetch_proxies_from_source wide_port_world ''https://www.sslproxies.org/'' ''table'') =
     [\<lparr>ip = ''1.2.3.4'', port = ''99999'', protocol = ''https'',
       source = ''https://www.sslproxies.org/'', last_checked = None, working = None\<rparr>]
   \<and> fst (fetch_proxies_from_source wide_port_world ''https://free-proxy-list.net/'' ''table'') =
     [\<lparr>ip = ''1.2.3.4'', port = ''99999'', protocol = ''http'',
       source = ''https://free-proxy-list.net/'', last_checked = None, working = None\<rparr>]"
proof -
  have r: "\<And>url. requests_get wide_port_world url =
      Inr ([[''IP Address'', ''Port''], [''1.2.3.4'', ''99999'']] # [])"
    by (simp add: wide_port_world_def)
  have s: "strip ''1.2.3.4'' = ''1.2.3.4''" "strip ''99999'' = ''99999''"
    by (simp_all add: strip_def is_space_def)
  have c: "(\<exists>a b. ''https://www.sslproxies.org/'' = a @ ''ssl'' @ b) = True"
    "(\<exists>a b. ''https://free-proxy-list.net/'' = a @ ''ssl'' @ b) = False"
    unfolding sublist_def [symmetric] by (simp_all add: sublist_code)
  from fetch_table_rule [OF r, of "''https://www.sslproxies.org/''"]
  have 1: "fst (fetch_proxies_from_source wide_port_world ''https://www.sslproxies.org/''
      ''table'') =
     [\<lparr>ip = ''1.2.3.4'', port = ''99999'', protocol = ''https'',
       source = ''https://www.sslproxies.org/'', last_checked = None, working = None\<rparr>]"
    unfolding c by (simp add: s)
  from fetch_table_rule [OF r, of "''https://free-proxy-list.net/''"]
  have 2: "fst (fetch_proxies_from_source wide_port_world ''https://free-proxy-list.net/'' ''table'') =
     [\<lparr>ip = ''1.2.3.4'', port = ''99999'', protocol = ''http'',
       source = ''https://free-proxy-list.net/'', last_checked = None, working = None\<rparr>]"
    unfolding c by (simp add: s)
  from 1 2 show ?thesis
    by (intro conjI)
qed

section \<open>Proxy verifier (C7)\<close>

text \<open>
  C7 as stated fails: the test of line 70 is for status 200 alone. A probe that completes
  with status 204, a successful status, gives \<open>None\<close>.
\<close>

theorem test_proxy_rejects_204_counterexample:
  "http_2xx 204
   \<and> probe_get (example_world\<lparr>probe_get := (\<lambda>u. Inr 204)\<rparr>) ''http://1.2.3.4:8080'' = Inr 204
   \<and> test_proxy (example_world\<lparr>probe_get := (\<lambda>u. Inr 204)\<rparr>)
        \<lparr>ip = ''1.2.3.4'', port = ''8080'', protocol = ''http'',
         source = ''https://free-proxy-list.net/'', last_checked = None, working = None\<rparr> =
       (None, [Http_probe ''http://1.2.3.4:8080''])"
  by (simp add: http_2xx_def test_proxy_def proxy_url_def)

text \<open>
  C7, amended. \<open>test_proxy\<close> sends one probe through the candidate, that is, with the
  proxy URL made of the candidate's protocol, address and port. It returns an entry
  exactly when that probe completes with status 200, and then the entry is the candidate
  with \<open>working\<close> set to \<open>True\<close> and \<open>last_checked\<close> set to the clock reading taken at the
  check, in ISO format. When the probe completes with any other status, or raises, it
  returns \<open>None\<close>. In every case the trace holds exactly one probe: nothing is retried.
\<close>

theorem test_proxy_single_probe:
  "(probe_get w (protocol p @ ''://'' @ ip p @ '':'' @ port p) = Inr 200 \<longrightarrow>
      test_proxy w p =
        (Some (p\<lparr>last_checked :=
                   Some (isoformat w
                           (clock_check w (protocol p @ ''://'' @ ip p @ '':'' @ port p))),
                 working := Some True\<rparr>),
         [Http_probe (protocol p @ ''://'' @ ip p @ '':'' @ port p)]))
   \<and> (probe_get w (protocol p @ ''://'' @ ip p @ '':'' @ port p) = Inr status_code
       \<and> status_code \<noteq> 200 \<longrightarrow>
      test_proxy w p = (None, [Http_probe (protocol p @ ''://'' @ ip p @ '':'' @ port p)]))
   \<and> (probe_get w (protocol p @ ''://'' @ ip p @ '':'' @ port p) = Inl e \<longrightarrow>
      test_proxy w p =
        (None, [Http_probe (protocol p @ ''://'' @ ip p @ '':'' @ port p),
                Print_proxy_failed (ip p) (port p) e]))
   \<and> (fst (test_proxy w p) \<noteq> None \<longleftrightarrow>
        probe_get w (protocol p @ ''://'' @ ip p @ '':'' @ port p) = Inr 200)
   \<and> concat (map (\<lambda>ev. case ev of Http_probe u \<Rightarrow> [u] | _ \<Rightarrow> []) (snd (test_proxy w p))) =
       [protocol p @ ''://'' @ ip p @ '':'' @ port p]"
  by (auto simp: test_proxy_def proxy_url_def split: sum.splits)

theorem test_proxy_single_probe_witness:
  "test_proxy example_world (example_entry\<lparr>last_checked := None, working := None\<rparr>) =
     (Some example_entry, [Http_probe ''http://1.2.3.4:8080''])
   \<and> test_proxy (example_world\<lparr>probe_get := (\<lambda>u. Inr 503)\<rparr>)
        (example_entry\<lparr>last_checked := None, working := None\<rparr>) =
     (None, [Http_probe ''http://1.2.3.4:8080''])
   \<and> test_proxy (example_world\<lparr>probe_get := (\<lambda>u. Inl TimedOut)\<rparr>)
        (example_entry\<lparr>last_checked := None, working := None\<rparr>) =
     (None, [Http_probe ''http://1.2.3.4:8080'',
             Print_proxy_failed ''1.2.3.4'' ''8080'' TimedOut])"
proof -
  let ?p = "example_entry\<lparr>last_checked := None, working := None\<rparr>"
  let ?w503 = "example_world\<lparr>probe_get := (\<lambda>u. Inr 503)\<rparr>"
  let ?wout = "example_world\<lparr>probe_get := (\<lambda>u. Inl TimedOut)\<rparr>"
  from test_proxy_single_probe [of example_world ?p]
  have 1: "test_proxy example_world ?p =
      (Some example_entry, [Http_probe ''http://1.2.3.4:8080''])"
    by (simp add: example_entry_def example_world_def example_iso_def)
  from test_proxy_single_probe [of ?w503 ?p 503]
  have 2: "test_proxy ?w503 ?p = (None, [Http_probe ''http://1.2.3.4:8080''])"
    by (simp add: example_entry_def)
  from test_proxy_single_probe [of ?wout ?p _ TimedOut]
  have 3: "test_proxy ?wout ?p =
      (None, [Http_probe ''http://1.2.3.4:8080'',
              Print_proxy_failed ''1.2.3.4'' ''8080'' TimedOut])"
    by (simp add: example_entry_def)
  from 1 2 3 show ?thesis
    by (intro conjI)
qed

section \<open>The port field (C8)\<close>

lemma fetch_member:
  assumes m: "p \<in> set (fst (fetch_proxies_from_source w url parser_type))"
  shows "\<exists>tbl rest cols. requests_get w url = Inr (tbl # rest)
      \<and> cols \<in> set (take 19 (drop 1 tbl)) \<and> 2 \<le> length cols \<and> p = candidate url cols"
proof (cases "requests_get w url")
  case (Inl e)
  with m show ?thesis
    by (simp add: fetch_proxies_from_source_def)
next
  case (Inr sp)
  show ?thesis
  proof (cases sp)
    case Nil
    with Inr m show ?thesis
      by (simp add: fetch_proxies_from_source_def cong: if_cong)
  next
    case (Cons tbl rest)
    with Inr have "fst (fetch_proxies_from_source w url parser_type) =
        (if parser_type = ''table''
         then map (candidate url) (filter (\<lambda>cols. 2 \<le> length cols) (take 19 (drop 1 tbl)))
         else [])"
      by (simp add: fetch_proxies_from_source_def rows_loop_eq slice_def)
    with m have "p \<in> set (map (candidate url)
        (filter (\<lambda>cols. 2 \<le> length cols) (take 19 (drop 1 tbl))))"
      by (cases "parser_type = ''table''") simp_all
    with Inr Cons show ?thesis
      by auto
  qed
qed

lemma first_seen_subset: "set (first_seen seen xs) \<subseteq> set xs"
  by (induction xs arbitrary: seen) auto

lemma collect_member: "q \<in> set (collect rs) \<longleftrightarrow> Some q \<in> set rs"
  by (induction rs rule: collect.induct) auto

lemma test_proxy_port: "fst (test_proxy w p) = Some q \<Longrightarrow> port q = port p"
  by (auto simp: test_proxy_def split: sum.splits if_splits)

lemma harvest_member:
  assumes "q \<in> set (fst (harvest w))"
  shows "\<exists>url parser p. (url, parser) \<in> set sources
     \<and> p \<in> set (fst (fetch_proxies_from_source w url parser)) \<and> port q = port p"
proof -
  let ?all = "concat (map fst (map (\<lambda>(url, parser). fetch_proxies_from_source w url parser) sources))"
  from assms have "Some q \<in> set (map fst (map (test_proxy w) (dedupe ?all)))"
    by (simp add: harvest_def Let_def collect_member)
  then obtain p where p: "p \<in> set (dedupe ?all)" and t: "fst (test_proxy w p) = Some q"
    by auto
  from p have "p \<in> set ?all"
    using first_seen_subset [of "{}" ?all] by (auto simp: dedupe_first_seen)
  then obtain url parser where "(url, parser) \<in> set sources"
      "p \<in> set (fst (fetch_proxies_from_source w url parser))"
    by auto
  with test_proxy_port [OF t] show ?thesis
    by blast
qed

text \<open>
  C8 as stated fails: the port is never converted to an integer and never checked against
  a range. In the example world the listing row \<open>("1.2.3.4", "8080")\<close> is served by
  \<open>get_proxies\<close> as an entry whose port is the string \<open>"8080"\<close>, which \<open>jsonify\<close> writes as
  a JSON string and not as the number 8080; and a row whose port cell reads \<open>99999\<close>
  gives a candidate with that text as its port.
\<close>

theorem served_port_is_string_counterexample:
  "fst (get_proxies example_world 0 initial_cache) =
     Inr (Proxies_body 1 ''1970-01-01T00:00:00.000007'' [example_entry], 200)
   \<and> map_of (proxy_json example_entry) ''port'' = Some (JStr ''8080'')
   \<and> map_of (proxy_json example_entry) ''port'' \<noteq> Some (JInt 8080)
   \<and> map port (fst (fetch_proxies_from_source wide_port_world ''https://free-proxy-list.net/''
         ''table'')) = [''99999'']"
proof (intro conjI)
  have "cache_stale 0 initial_cache = Inr True"
    by (simp add: cache_stale_def initial_cache_def)
  then show "fst (get_proxies example_world 0 initial_cache) =
     Inr (Proxies_body 1 ''1970-01-01T00:00:00.000007'' [example_entry], 200)"
    by (simp add: get_proxies_def update_proxy_cache_eq harvest_example)
       (simp add: example_world_def example_iso_def)
  show "map_of (proxy_json example_entry) ''port'' = Some (JStr ''8080'')"
    by (simp add: proxy_json_def example_entry_def)
  then show "map_of (proxy_json example_entry) ''port'' \<noteq> Some (JInt 8080)"
    by simp
  have r: "requests_get wide_port_world ''https://free-proxy-list.net/'' =
      Inr ([[''IP Address'', ''Port''], [''1.2.3.4'', ''99999'']] # [])"
    by (simp add: wide_port_world_def)
  show "map port (fst (fetch_proxies_from_source wide_port_world ''https://free-proxy-list.net/''
         ''table'')) = [''99999'']"
    unfolding fetch_table_eq [OF r] by (simp add: candidate_def strip_def is_space_def)
qed

lemma harvest_port_origin:
  assumes "q \<in> set (fst (harvest w))"
  shows "port_origin {w} q"
proof -
  from harvest_member [OF assms] obtain url parser p where
    s: "(url, parser) \<in> set sources" and
    p: "p \<in> set (fst (fetch_proxies_from_source w url parser))" and
    e: "port q = port p"
    by blast
  from fetch_member [OF p] obtain tbl rest cols where
    "requests_get w url = Inr (tbl # rest)" "cols \<in> set (take 19 (drop 1 tbl))"
    "2 \<le> length cols" "p = candidate url cols"
    by blast
  with s e show ?thesis
    unfolding port_origin_def by (auto simp: candidate_def)
qed

lemma port_origin_mono: "port_origin W q \<Longrightarrow> W \<subseteq> W' \<Longrightarrow> port_origin W' q"
  unfolding port_origin_def by blast

lemma get_proxies_cache:
  "fst (snd (get_proxies w now c)) = c
   \<or> fst (snd (get_proxies w now c)) = fst (update_proxy_cache w c)"
  by (simp add: get_proxies_def split_beta split: sum.splits option.splits)

lemma get_proxies_by_protocol_cache:
  "fst (snd (get_proxies_by_protocol w now proto c)) = c
   \<or> fst (snd (get_proxies_by_protocol w now proto c)) = fst (update_proxy_cache w c)"
  by (simp add: get_proxies_by_protocol_def split_beta Let_def split: sum.splits)

lemma get_stats_cache:
  "fst (snd (get_stats w c)) = c \<or> fst (snd (get_stats w c)) = fst (update_proxy_cache w c)"
  by (simp add: get_stats_def split_beta Let_def split: sum.splits option.splits)

lemma serve_cache: "serve r c = c \<or> serve r c = fst (update_proxy_cache (world_of r) c)"
  by (cases r)
     (simp_all add: get_proxies_cache get_proxies_by_protocol_cache get_stats_cache)

lemma serve_port_origin:
  assumes "\<forall>q \<in> set (proxies c). port_origin W q"
  shows "\<forall>q \<in> set (proxies (serve r c)). port_origin (insert (world_of r) W) q"
proof
  fix q
  assume q: "q \<in> set (proxies (serve r c))"
  from serve_cache [of r c] show "port_origin (insert (world_of r) W) q"
  proof
    assume "serve r c = c"
    with q assms have "port_origin W q"
      by simp
    then show ?thesis
      by (rule port_origin_mono) blast
  next
    assume "serve r c = fst (update_proxy_cache (world_of r) c)"
    with q have "q \<in> set (fst (harvest (world_of r)))"
      by (simp add: update_proxy_cache_eq)
    then have "port_origin {world_of r} q"
      by (rule harvest_port_origin)
    then show ?thesis
      by (rule port_origin_mono) blast
  qed
qed

lemma run_port_origin:
  "\<forall>q \<in> set (proxies c). port_origin W q \<Longrightarrow>
   \<forall>q \<in> set (proxies (run reqs c)). port_origin (W \<union> world_of ` set reqs) q"
proof (induction reqs arbitrary: c W)
  case Nil
  then show ?case by simp
next
  case (Cons r rs)
  from serve_port_origin [OF Cons.prems, of r]
  have "\<forall>q \<in> set (proxies (run rs (serve r c))).
      port_origin (insert (world_of r) W \<union> world_of ` set rs) q"
    by (rule Cons.IH)
  then show ?case
    by simp
qed

lemma get_proxies_served:
  assumes "get_proxies w now c = (Inr (Proxies_body n t served, st), c', ev)"
  shows "served = proxies (serve (Req_proxies w now) c)"
  using assms
  by (auto simp: get_proxies_def split_beta split: sum.splits option.splits)

text \<open>
  C8, amended. The port of every candidate the fetcher produces is the text of the second
  cell of one of the rows it read, stripped of surrounding whitespace, and \<open>jsonify\<close>
  writes it as a JSON string. The same holds for every entry that \<open>get_proxies\<close> serves,
  in whatever state the requests handled since the start of the process have left the
  cache: its port is the stripped second cell of a row that one of the configured sources
  gave during this request or an earlier one, written as a JSON string.
\<close>

theorem served_port_is_cell_text:
  "(p \<in> set (fst (fetch_proxies_from_source w url parser_type)) \<longrightarrow>
      (\<exists>tbl rest cols. requests_get w url = Inr (tbl # rest)
         \<and> cols \<in> set (take 19 (drop 1 tbl)) \<and> 2 \<le> length cols
         \<and> port p = strip (cols ! 1)
         \<and> map_of (proxy_json p) ''port'' = Some (JStr (strip (cols ! 1)))))
   \<and> (get_proxies w now (run reqs initial_cache) =
         (Inr (Proxies_body n t served, st), c', ev)
       \<and> q \<in> set served \<longrightarrow>
      (\<exists>w' url parser tbl rest cols. w' \<in> set (w # map world_of reqs)
         \<and> (url, parser) \<in> set sources
         \<and> requests_get w' url = Inr (tbl # rest)
         \<and> cols \<in> set (take 19 (drop 1 tbl)) \<and> 2 \<le> length cols
         \<and> port q = strip (cols ! 1)
         \<and> map_of (proxy_json q) ''port'' = Some (JStr (strip (cols ! 1)))))"
proof (intro conjI impI)
  assume "p \<in> set (fst (fetch_proxies_from_source w url parser_type))"
  from fetch_member [OF this]
  show "\<exists>tbl rest cols. requests_get w url = Inr (tbl # rest)
         \<and> cols \<in> set (take 19 (drop 1 tbl)) \<and> 2 \<le> length cols
         \<and> port p = strip (cols ! 1)
         \<and> map_of (proxy_json p) ''port'' = Some (JStr (strip (cols ! 1)))"
    by (auto simp: candidate_def proxy_json_def)
next
  assume a: "get_proxies w now (run reqs initial_cache) =
         (Inr (Proxies_body n t served, st), c', ev)
       \<and> q \<in> set served"
  have "\<forall>q \<in> set (proxies initial_cache). port_origin {} q"
    by (simp add: initial_cache_def)
  then have "\<forall>q \<in> set (proxies (run reqs initial_cache)).
      port_origin ({} \<union> world_of ` set reqs) q"
    by (rule run_port_origin)
  from serve_port_origin [OF this, of "Req_proxies w now"]
  have "\<forall>q \<in> set (proxies (serve (Req_proxies w now) (run reqs initial_cache))).
      port_origin (insert w ({} \<union> world_of ` set reqs)) q"
    by simp
  moreover from a have "served = proxies (serve (Req_proxies w now) (run reqs initial_cache))"
    using get_proxies_served by blast
  ultimately have "port_origin (insert w ({} \<union> world_of ` set reqs)) q"
    using a by blast
  then show "\<exists>w' url parser tbl rest cols. w' \<in> set (w # map world_of reqs)
         \<and> (url, parser) \<in> set sources
         \<and> requests_get w' url = Inr (tbl # rest)
         \<and> cols \<in> set (take 19 (drop 1 tbl)) \<and> 2 \<le> length cols
         \<and> port q = strip (cols ! 1)
         \<and> map_of (proxy_json q) ''port'' = Some (JStr (strip (cols ! 1)))"
    unfolding port_origin_def by (simp add: proxy_json_def)
qed

theorem served_port_is_cell_text_witness:
  "(\<exists>tbl rest cols. requests_get example_world ''https://free-proxy-list.net/'' = Inr (tbl # rest)
       \<and> cols \<in> set (take 19 (drop 1 tbl)) \<and> 2 \<le> length cols
       \<and> port (example_entry\<lparr>last_checked := None, working := None\<rparr>) = strip (cols ! 1)
       \<and> map_of (proxy_json (example_entry\<lparr>last_checked := None, working := None\<rparr>)) ''port''
           = Some (JStr (strip (cols ! 1))))
   \<and> get_proxies (example_world\<lparr>requests_get := (\<lambda>url. Inl TimedOut)\<rparr>) (minutes 29)
        (run [Req_proxies example_world 0] initial_cache) =
       (Inr (Proxies_body 1 ''1970-01-01T00:00:00.000007'' [example_entry], 200),
        run [Req_proxies example_world 0] initial_cache, [])
   \<and> (\<exists>w' url parser tbl rest cols.
         w' \<in> set (example_world\<lparr>requests_get := (\<lambda>url. Inl TimedOut)\<rparr>
                    # map world_of [Req_proxies example_world 0])
       \<and> (url, parser) \<in> set sources
       \<and> requests_get w' url = Inr (tbl # rest)
       \<and> cols \<in> set (take 19 (drop 1 tbl)) \<and> 2 \<le> length cols
       \<and> port example_entry = strip (cols ! 1)
       \<and> map_of (proxy_json example_entry) ''port'' = Some (JStr (strip (cols ! 1))))"
proof -
  let ?p = "example_entry\<lparr>last_checked := None, working := None\<rparr>"
  let ?w = "example_world\<lparr>requests_get := (\<lambda>url. Inl TimedOut)\<rparr>"
  have m: "?p \<in> set (fst (fetch_proxies_from_source example_world ''https://free-proxy-list.net/'' ''table''))"
    by (simp add: fetch_example_up)
  have "cache_stale 0 initial_cache = Inr True"
    by (simp add: cache_stale_def initial_cache_def)
  then have r: "run [Req_proxies example_world 0] initial_cache =
      \<lparr>proxies = [example_entry], last_updated = Some 7,
       expires_in = minutes CACHE_EXPIRATION_MINUTES\<rparr>"
    by (simp add: get_proxies_def update_proxy_cache_eq harvest_example)
       (simp add: example_world_def initial_cache_def)
  have "cache_stale (minutes 29)
      \<lparr>proxies = [example_entry], last_updated = Some 7,
       expires_in = minutes CACHE_EXPIRATION_MINUTES\<rparr> = Inr False"
    by (simp add: cache_stale_def minutes_def CACHE_EXPIRATION_MINUTES_def)
  then have "get_proxies ?w (minutes 29)
      \<lparr>proxies = [example_entry], last_updated = Some 7,
       expires_in = minutes CACHE_EXPIRATION_MINUTES\<rparr> =
      (Inr (Proxies_body 1 ''1970-01-01T00:00:00.000007'' [example_entry], 200),
       \<lparr>proxies = [example_entry], last_updated = Some 7,
        expires_in = minutes CACHE_EXPIRATION_MINUTES\<rparr>, [])"
    by (simp add: get_proxies_def) (simp add: example_world_def example_iso_def)
  then have g: "get_proxies ?w (minutes 29) (run [Req_proxies example_world 0] initial_cache) =
      (Inr (Proxies_body 1 ''1970-01-01T00:00:00.000007'' [example_entry], 200),
       run [Req_proxies example_world 0] initial_cache, [])"
    by (simp only: r)
  have e: "example_entry \<in> set [example_entry]"
    by simp
  note t = served_port_is_cell_text [of ?p example_world "''https://free-proxy-list.net/''" "''table''"
      "minutes 29" "[Req_proxies example_world 0]" 1 "''1970-01-01T00:00:00.000007''"
      "[example_entry]" 200 "run [Req_proxies example_world 0] initial_cache" "[]"
      example_entry]
  note t' = served_port_is_cell_text [of ?p ?w "''https://free-proxy-list.net/''" "''table''"
      "minutes 29" "[Req_proxies example_world 0]" 1 "''1970-01-01T00:00:00.000007''"
      "[example_entry]" 200 "run [Req_proxies example_world 0] initial_cache" "[]"
      example_entry]
  from t m have 1: "\<exists>tbl rest cols. requests_get example_world ''https://free-proxy-list.net/'' = Inr (tbl # rest)
       \<and> cols \<in> set (take 19 (drop 1 tbl)) \<and> 2 \<le> length cols
       \<and> port ?p = strip (cols ! 1)
       \<and> map_of (proxy_json ?p) ''port'' = Some (JStr (strip (cols ! 1)))"
    by blast
  from t' g e have 2: "\<exists>w' url parser tbl rest cols.
         w' \<in> set (?w # map world_of [Req_proxies example_world 0])
       \<and> (url, parser) \<in> set sources
       \<and> requests_get w' url = Inr (tbl # rest)
       \<and> cols \<in> set (take 19 (drop 1 tbl)) \<and> 2 \<le> length cols
       \<and> port example_entry = strip (cols ! 1)
       \<and> map_of (proxy_json example_entry) ''port'' = Some (JStr (strip (cols ! 1)))"
    by blast
  from 1 g 2 show ?thesis
    by (intro conjI)
qed

section \<open>Protocol filter (C9)\<close>

text \<open>
  C9. For a requested protocol other than \<open>http\<close> and \<open>https\<close>,
  \<open>get_proxies_by_protocol\<close> answers with status 400 and an error body, runs no harvest
  cycle and leaves the cache as it is. For \<open>http\<close> or \<open>https\<close> it answers with exactly
  the entries of the cache whose protocol is the requested one, in cache order, and with
  their number as the count: the entries of the unchanged cache when it is non-empty and
  not expired, and the entries of the refreshed cache when it was empty or expired.
\<close>

theorem get_proxies_by_protocol_filter:
  "(proto \<noteq> ''http'' \<and> proto \<noteq> ''https'' \<longrightarrow>
      get_proxies_by_protocol w now proto c =
        (Inr (Error_body invalid_protocol_message, 400), c, [])
      \<and> cycles (snd (snd (get_proxies_by_protocol w now proto c))) = 0)
   \<and> ((proto = ''http'' \<or> proto = ''https'')
       \<and> proxies c \<noteq> [] \<and> last_updated c = Some T \<and> now \<le> T + expires_in c \<longrightarrow>
      get_proxies_by_protocol w now proto c =
        (Inr (Filtered_body (int (length (filter (\<lambda>p. protocol p = proto) (proxies c)))) proto
                (filter (\<lambda>p. protocol p = proto) (proxies c)), 200),
         c, []))
   \<and> ((proto = ''http'' \<or> proto = ''https'')
       \<and> (proxies c = [] \<or> (last_updated c = Some T \<and> T + expires_in c < now)) \<longrightarrow>
      get_proxies_by_protocol w now proto c =
        (Inr (Filtered_body
                (int (length (filter (\<lambda>p. protocol p = proto)
                                (proxies (fst (update_proxy_cache w c))))))
                proto
                (filter (\<lambda>p. protocol p = proto) (proxies (fst (update_proxy_cache w c)))), 200),
         fst (update_proxy_cache w c), snd (update_proxy_cache w c)))"
proof (intro conjI impI)
  assume "proto \<noteq> ''http'' \<and> proto \<noteq> ''https''"
  then show g: "get_proxies_by_protocol w now proto c =
        (Inr (Error_body invalid_protocol_message, 400), c, [])"
    by (simp add: get_proxies_by_protocol_def)
  show "cycles (snd (snd (get_proxies_by_protocol w now proto c))) = 0"
    unfolding g by (simp add: cycles_def)
next
  assume a: "(proto = ''http'' \<or> proto = ''https'')
       \<and> proxies c \<noteq> [] \<and> last_updated c = Some T \<and> now \<le> T + expires_in c"
  then have "cache_stale now c = Inr False"
    by (simp add: cache_stale_def)
  with a show "get_proxies_by_protocol w now proto c =
        (Inr (Filtered_body (int (length (filter (\<lambda>p. protocol p = proto) (proxies c)))) proto
                (filter (\<lambda>p. protocol p = proto) (proxies c)), 200),
         c, [])"
    by (auto simp: get_proxies_by_protocol_def Let_def)
next
  assume a: "(proto = ''http'' \<or> proto = ''https'')
       \<and> (proxies c = [] \<or> (last_updated c = Some T \<and> T + expires_in c < now))"
  then have "cache_stale now c = Inr True"
    by (auto simp: cache_stale_def)
  with a show "get_proxies_by_protocol w now proto c =
        (Inr (Filtered_body
                (int (length (filter (\<lambda>p. protocol p = proto)
                                (proxies (fst (update_proxy_cache w c))))))
                proto
                (filter (\<lambda>p. protocol p = proto) (proxies (fst (update_proxy_cache w c)))), 200),
         fst (update_proxy_cache w c), snd (update_proxy_cache w c))"
    by (auto simp: get_proxies_by_protocol_def split_beta Let_def)
qed

theorem get_proxies_by_protocol_filter_witness:
  "get_proxies_by_protocol example_world (minutes 29) ''ftp'' mixed_cache =
     (Inr (Error_body invalid_protocol_message, 400), mixed_cache, [])
   \<and> get_proxies_by_protocol example_world (minutes 29) ''https'' mixed_cache =
     (Inr (Filtered_body 3 ''https''
             [https_entry ''10.0.0.2'', https_entry ''10.0.0.3'', https_entry ''10.0.0.5''],
           200),
      mixed_cache, [])
   \<and> fst (get_proxies_by_protocol example_world (minutes 31) ''http'' mixed_cache) =
     Inr (Filtered_body 1 ''http'' [example_entry], 200)"
proof -
  note t = get_proxies_by_protocol_filter [of _ example_world _ mixed_cache 0]
  have inv: "''ftp'' \<noteq> ''http'' \<and> ''ftp'' \<noteq> ''https''"
    by simp
  have fresh: "(''https'' = ''http'' \<or> ''https'' = ''https'')
      \<and> proxies mixed_cache \<noteq> [] \<and> last_updated mixed_cache = Some 0
      \<and> minutes 29 \<le> 0 + expires_in mixed_cache"
    by (simp add: mixed_cache_def minutes_def CACHE_EXPIRATION_MINUTES_def)
  have stale: "(''http'' = ''http'' \<or> ''http'' = ''https'')
      \<and> (proxies mixed_cache = [] \<or>
          (last_updated mixed_cache = Some 0 \<and> 0 + expires_in mixed_cache < minutes 31))"
    by (simp add: mixed_cache_def minutes_def CACHE_EXPIRATION_MINUTES_def)
  have f: "filter (\<lambda>p. protocol p = ''https'') (proxies mixed_cache) =
      [https_entry ''10.0.0.2'', https_entry ''10.0.0.3'', https_entry ''10.0.0.5'']"
    by (simp add: mixed_cache_def http_entry_def https_entry_def)
  have h: "proxies (fst (update_proxy_cache example_world mixed_cache)) = [example_entry]"
    by (simp add: update_proxy_cache_eq harvest_example)
  have p: "protocol example_entry = ''http''"
    by (simp add: example_entry_def)
  from t [of "''ftp''" "minutes 29"] inv
  have 1: "get_proxies_by_protocol example_world (minutes 29) ''ftp'' mixed_cache =
     (Inr (Error_body invalid_protocol_message, 400), mixed_cache, [])"
    by blast
  from t [of "''https''" "minutes 29"] fresh
  have "get_proxies_by_protocol example_world (minutes 29) ''https'' mixed_cache =
     (Inr (Filtered_body
             (int (length (filter (\<lambda>p. protocol p = ''https'') (proxies mixed_cache))))
             ''https'' (filter (\<lambda>p. protocol p = ''https'') (proxies mixed_cache)), 200),
      mixed_cache, [])"
    by blast
  then have 2: "get_proxies_by_protocol example_world (minutes 29) ''https'' mixed_cache =
     (Inr (Filtered_body 3 ''https''
             [https_entry ''10.0.0.2'', https_entry ''10.0.0.3'', https_entry ''10.0.0.5''],
           200),
      mixed_cache, [])"
    unfolding f by simp
  from t [of "''http''" "minutes 31"] stale
  have "get_proxies_by_protocol example_world (minutes 31) ''http'' mixed_cache =
     (Inr (Filtered_body
             (int (length (filter (\<lambda>p. protocol p = ''http'')
                (proxies (fst (update_proxy_cache example_world mixed_cache))))))
             ''http''
             (filter (\<lambda>p. protocol p = ''http'')
                (proxies (fst (update_proxy_cache example_world mixed_cache)))), 200),
      fst (update_proxy_cache example_world mixed_cache),
      snd (update_proxy_cache example_world mixed_cache))"
    by blast
  then have 3: "fst (get_proxies_by_protocol example_world (minutes 31) ''http'' mixed_cache) =
     Inr (Filtered_body 1 ''http'' [example_entry], 200)"
    unfolding h by (simp add: p)
  from 1 2 3 show ?thesis
    by (intro conjI)
qed

section \<open>Statistics (C3)\<close>

text \<open>
  C3. \<open>get_stats\<close> refreshes only an empty cache; it never compares the clock with
  \<open>last_updated + expires_in\<close>, as \<open>get_proxies\<close> and \<open>get_proxies_by_protocol\<close> do. On the
  example cache, last updated at time 0, at 31 minutes the staleness condition of the
  other two handlers holds and \<open>get_proxies\<close> runs a harvest cycle, while \<open>get_stats\<close>
  runs none and reports the counts of the expired entries.
\<close>

theorem get_stats_skips_expiry_check:
  "cache_stale (minutes 31) example_cache = Inr True
   \<and> cycles (snd (snd (get_proxies w (minutes 31) example_cache))) = 1
   \<and> get_stats w example_cache =
       (Inr (Stats_body 1 1 0 [(''free-proxy-list.net'', 1)] (isoformat w 0), 200),
        example_cache, [])"
proof (intro conjI)
  show s: "cache_stale (minutes 31) example_cache = Inr True"
    by (simp add: cache_stale_def example_cache_def minutes_def CACHE_EXPIRATION_MINUTES_def)
  show "cycles (snd (snd (get_proxies w (minutes 31) example_cache))) = 1"
    using cycles_update [of w example_cache]
    by (simp add: get_proxies_def s split_beta update_proxy_cache_eq)
  show "get_stats w example_cache =
       (Inr (Stats_body 1 1 0 [(''free-proxy-list.net'', 1)] (isoformat w 0), 200),
        example_cache, [])"
    by (simp add: get_stats_def example_cache_def example_entry_def)
qed

end
